theory Spec2Isabelle
  imports Main
begin

section \<open>simple-apt-update: the process runner and the output poller of app.py\<close>

text \<open>
  The development embeds the class \<open>UpdateWindow\<close> of
  \<^verbatim>\<open>usr/share/simple-apt-update/app.py\<close>: the text buffer and its insertion
  helpers, \<open>execute\<close>, the worker thread's \<open>run\<close>, \<open>lock\<close>/\<open>unlock\<close>, the three
  command facades and the timer callback \<open>update_buffer\<close>.

  Text is a \<open>string\<close>; a \<open>char\<close> stands for one code point below 256, so the model is
  exact for output in that range (Python's \<open>\d\<close> and \<open>rstrip\<close> also know digits and
  blanks beyond it, which no claim below depends on).
\<close>

subsection \<open>Text helpers of the Python runtime\<close>

text \<open>\<open>"%d" % n\<close>: decimal digits, a leading minus sign for a negative number.\<close>

definition digit_char :: "nat \<Rightarrow> char" where
  "digit_char d = char_of (48 + d)"

function show_nat :: "nat \<Rightarrow> string" where
  "show_nat n = (if n < 10 then [digit_char n] else show_nat (n div 10) @ [digit_char (n mod 10)])"
  by pat_completeness auto
termination
  by (relation "measure (\<lambda>n. n)") auto

declare show_nat.simps [simp del]

definition show_int :: "int \<Rightarrow> string" where
  "show_int i = (if i < 0 then CHR ''-'' # show_nat (nat (- i)) else show_nat (nat i))"

text \<open>\<open>\d\<close> and \<open>int(...)\<close> on a string of decimal digits.\<close>

definition is_digit :: "char \<Rightarrow> bool" where
  "is_digit c = (48 \<le> (of_char c :: nat) \<and> (of_char c :: nat) \<le> 57)"

definition digit_val :: "char \<Rightarrow> int" where
  "digit_val c = int (of_char c) - 48"

definition int_of_digits :: "string \<Rightarrow> int" where
  "int_of_digits ds = foldl (\<lambda>a c. 10 * a + digit_val c) 0 ds"

text \<open>\<open>str.isspace\<close> on one character, and \<open>str.rstrip()\<close> with no argument.\<close>

definition is_space :: "char \<Rightarrow> bool" where
  "is_space c = ((of_char c :: nat) \<in> set [9, 10, 11, 12, 13, 28, 29, 30, 31, 32, 133, 160])"

definition rstrip :: "string \<Rightarrow> string" where
  "rstrip s = rev (dropWhile is_space (rev s))"

text \<open>\<open>" ".join(args)\<close>.\<close>

fun join_space :: "string list \<Rightarrow> string" where
  "join_space [] = []"
| "join_space [a] = a"
| "join_space (a # b # rest) = a @ '' '' @ join_space (b # rest)"

text \<open>\<open>html.escape(text)\<close> with its default \<open>quote=True\<close>.\<close>

definition escape_char :: "char \<Rightarrow> string" where
  "escape_char c =
     (if c = CHR ''&'' then ''&amp;''
      else if c = CHR ''<'' then ''&lt;''
      else if c = CHR ''>'' then ''&gt;''
      else if c = CHR 0x22 then ''&quot;''
      else if c = CHR 0x27 then ''&#x27;''
      else [c])"

definition html_escape :: "string \<Rightarrow> string" where
  "html_escape text = concat (map escape_char text)"

text \<open>
  \<open>re.fullmatch(r'EXIT (\d+)', text)\<close>: \<open>None\<close> when the text does not match, the
  first group otherwise.
\<close>

definition fullmatch_exit :: "string \<Rightarrow> string option" where
  "fullmatch_exit text =
     (if take 5 text = ''EXIT '' \<and> drop 5 text \<noteq> [] \<and> list_all is_digit (drop 5 text)
      then Some (drop 5 text) else None)"

subsection \<open>The window\<close>

text \<open>
  What the text buffer received: \<open>Markup m\<close> for \<open>buffer.insert_markup(iter, m, -1)\<close>,
  \<open>Plain t\<close> for \<open>buffer.insert(iter, t)\<close>, in buffer order.
\<close>

datatype piece = Markup string | Plain string

datatype error = OSError | UnicodeDecodeError | TypeError

text \<open>
  The attributes of \<open>UpdateWindow\<close> that \<open>execute\<close>, \<open>run\<close> and \<open>update_buffer\<close>
  touch. A button field is its sensitivity, \<open>spinner\<close> is whether it spins, a queue is
  the list of its items with the oldest first.
\<close>

record window =
  buffer :: "piece list"
  output_msg :: "string option"
  empty_msg :: "string option"
  ignore_stderr :: bool
  stdout :: string
  stderr :: string
  stdout_queue :: "string list"
  stderr_queue :: "string list"
  update_button :: bool
  upgrade_button :: bool
  list_button :: bool
  spinner :: bool

definition clear :: "window \<Rightarrow> window" where
  "clear w = w\<lparr>buffer := []\<rparr>"

definition level_to_color :: "string \<Rightarrow> string" where
  "level_to_color level =
     (if level = ''INFO'' then ''green''
      else if level = ''ERROR'' then ''red''
      else ''grey'')"

text \<open>\<open>insert_color\<close> hands this markup to the buffer.\<close>

definition color_span :: "string \<Rightarrow> string \<Rightarrow> string" where
  "color_span text color =
     ''<span color='' @ [CHR 0x22] @ color @ [CHR 0x22] @ ''>'' @ html_escape text @ ''</span>''"

definition prepend_color :: "string \<Rightarrow> string \<Rightarrow> window \<Rightarrow> window" where
  "prepend_color text color w = w\<lparr>buffer := Markup (color_span text color) # buffer w\<rparr>"

definition append_color :: "string \<Rightarrow> string \<Rightarrow> window \<Rightarrow> window" where
  "append_color text color w = w\<lparr>buffer := buffer w @ [Markup (color_span text color)]\<rparr>"

text \<open>
  \<open>prepend\<close> and \<open>append\<close>: \<open>insert\<close> adds the newline. \<open>append\<close> also scrolls the
  view to the bottom, which changes no attribute of the record.
\<close>

definition prepend_text :: "string \<Rightarrow> window \<Rightarrow> window" where
  "prepend_text text w = w\<lparr>buffer := Plain (text @ [CHR 0x0A]) # buffer w\<rparr>"

definition append_text :: "string \<Rightarrow> window \<Rightarrow> window" where
  "append_text text w = w\<lparr>buffer := buffer w @ [Plain (text @ [CHR 0x0A])]\<rparr>"

definition prepend_mesg :: "string \<Rightarrow> string \<Rightarrow> window \<Rightarrow> window" where
  "prepend_mesg level text w =
     prepend_color (level @ '': '') (level_to_color level) (prepend_text text w)"

definition append_mesg :: "string \<Rightarrow> string \<Rightarrow> window \<Rightarrow> window" where
  "append_mesg level text w =
     append_text text (append_color (level @ '': '') (level_to_color level) w)"

definition lock :: "window \<Rightarrow> window" where
  "lock w = w\<lparr>update_button := False, upgrade_button := False, list_button := False,
               spinner := True\<rparr>"

definition unlock :: "window \<Rightarrow> window" where
  "unlock w = w\<lparr>update_button := True, upgrade_button := True, list_button := True,
                 spinner := False\<rparr>"

subsection \<open>Starting a command\<close>

text \<open>
  \<open>execute\<close> up to \<open>thread.start()\<close>. The second component is the started thread:
  the arguments \<open>(args, env)\<close> that \<open>run\<close> is called with.
\<close>

type_synonym environ = "(string \<times> string) list"

definition execute ::
  "string list \<Rightarrow> bool \<Rightarrow> string option \<Rightarrow> string option \<Rightarrow> environ \<Rightarrow> bool \<Rightarrow> window
     \<Rightarrow> window \<times> (string list \<times> environ)"
where
  "execute args ignore_stderr' output_msg' empty_msg' env clear' w =
     (let w1 = lock w;
          w2 = (if clear' then clear w1 else w1);
          w3 = w2\<lparr>output_msg := output_msg', empty_msg := empty_msg',
                  ignore_stderr := ignore_stderr', stdout := [], stderr := []\<rparr>;
          w4 = prepend_mesg ''INFO''
                 (''Running command '' @ [CHR 0x22] @ join_space args @ [CHR 0x22] @ '' ...'') w3
      in (w4, (args, env)))"

definition upgrade :: "window \<Rightarrow> window \<times> (string list \<times> environ)" where
  "upgrade w =
     execute [''/usr/bin/apt'', ''-yqq'', ''full-upgrade''] False None
       (Some ''No package upgrades were performed.'')
       [(''DEBIAN_FRONTEND'', ''noninteractive'')] True w"

definition update :: "bool \<Rightarrow> window \<Rightarrow> window \<times> (string list \<times> environ)" where
  "update clear' w =
     execute [''/usr/bin/apt'', ''-y'', ''update''] False None None
       [(''DEBIAN_FRONTEND'', ''noninteractive'')] clear' w"

definition list_upgradable :: "bool \<Rightarrow> window \<Rightarrow> window \<times> (string list \<times> environ)" where
  "list_upgradable clear' w =
     execute [''/usr/bin/apt'', ''-qq'', ''list'', ''--upgradable''] True
       (Some ''Found the following package upgrades:'')
       (Some ''Comando executado!'')
       [] clear' w"

subsection \<open>The worker thread\<close>

text \<open>
  The operating system is a parameter of the worker. \<open>Popen\<close> either raises
  \<open>OSError\<close> (no such file, permission denied) or gives a child; the life of a child
  is the list of what each \<open>sel.select()\<close> returned, and each ready key tells
  which stream it is, what \<open>read1().decode()\<close> gives there (\<open>None\<close> when the bytes
  do not decode; the empty string at end of file) and what \<open>p.poll()\<close> answers
  right after that read.
\<close>

datatype stream = P_stdout | P_stderr

record ready =
  fileobj :: stream
  read1 :: "string option"
  poll :: "int option"

datatype popen = Popen_raises | Child "ready list list"

text \<open>
  Where the thread is when the given wake-ups are used up: \<open>Selecting\<close> is blocked in
  \<open>sel.select()\<close> with \<open>done\<close> still false, \<open>Returned\<close> has left the loop, \<open>Raised\<close>
  ended by an exception nobody catches.
\<close>

datatype worker = Selecting | Returned | Raised error

text \<open>The \<open>for key, _ in sel.select()\<close> loop over one ready list.\<close>

fun run_keys :: "ready list \<Rightarrow> window \<Rightarrow> worker \<times> window" where
  "run_keys [] w = (Selecting, w)"
| "run_keys (key # keys) w =
     (case read1 key of
        None \<Rightarrow> (Raised UnicodeDecodeError, w)
      | Some s \<Rightarrow>
          (let data = rstrip s;
               w1 = (if data \<noteq> [] then
                       (if fileobj key = P_stdout
                        then w\<lparr>stdout_queue := stdout_queue w @ [data]\<rparr>
                        else w\<lparr>stderr_queue := stderr_queue w @ [data]\<rparr>)
                     else w)
           in case poll key of
                None \<Rightarrow> run_keys keys w1
              | Some exit_code \<Rightarrow>
                  (Returned,
                   w1\<lparr>stdout_queue := stdout_queue w1 @ [''EXIT '' @ show_int exit_code]\<rparr>)))"

text \<open>The \<open>while not done\<close> loop.\<close>

fun run_loop :: "ready list list \<Rightarrow> window \<Rightarrow> worker \<times> window" where
  "run_loop [] w = (Selecting, w)"
| "run_loop (keys # rest) w =
     (case run_keys keys w of
        (Selecting, w') \<Rightarrow> run_loop rest w'
      | (Returned, w') \<Rightarrow> (Returned, w')
      | (Raised e, w') \<Rightarrow> (Raised e, w'))"

definition run ::
  "(string list \<Rightarrow> environ \<Rightarrow> popen) \<Rightarrow> string list \<Rightarrow> environ \<Rightarrow> window \<Rightarrow> worker \<times> window"
where
  "run os_popen args env w =
     (case os_popen args env of
        Popen_raises \<Rightarrow> (Raised OSError, w)
      | Child wakeups \<Rightarrow> run_loop wakeups w)"

subsection \<open>The timer callback\<close>

text \<open>
  The first \<open>try\<close> block of \<open>update_buffer\<close>. \<open>queue.Empty\<close> is caught; the
  \<open>TypeError\<close> of \<open>None + "\n"\<close> in \<open>insert\<close> is not, and is returned with the
  window as it is when raised.
\<close>

definition update_buffer_stdout :: "window \<Rightarrow> error \<times> window + window" where
  "update_buffer_stdout w =
     (case stdout_queue w of
        [] \<Rightarrow> Inr w
      | text # rest \<Rightarrow>
          (let w1 = w\<lparr>stdout_queue := rest\<rparr> in
           case fullmatch_exit text of
             None \<Rightarrow> Inr (append_mesg ''STDOUT'' text (w1\<lparr>stdout := stdout w1 @ text\<rparr>))
           | Some group1 \<Rightarrow>
               (let exit_code = int_of_digits group1 in
                if exit_code \<noteq> 0 then
                  Inr (unlock (append_mesg ''ERROR''
                         (''Command exited with code '' @ show_int exit_code) w1))
                else if stdout w1 = [] \<and> empty_msg w1 \<noteq> None then
                  Inr (unlock (append_mesg ''INFO'' (the (empty_msg w1)) w1))
                else if stdout w1 \<noteq> [] \<and> output_msg w1 \<noteq> None then
                  (case empty_msg w1 of
                     None \<Rightarrow>
                       Inl (TypeError, append_color (''INFO'' @ '': '') (level_to_color ''INFO'') w1)
                   | Some m \<Rightarrow> Inr (unlock (append_mesg ''INFO'' m w1)))
                else Inr (unlock w1))))"

text \<open>The second \<open>try\<close> block.\<close>

definition update_buffer_stderr :: "window \<Rightarrow> window" where
  "update_buffer_stderr w =
     (case stderr_queue w of
        [] \<Rightarrow> w
      | text # rest \<Rightarrow>
          (let w1 = w\<lparr>stderr_queue := rest, stderr := stderr w @ text\<rparr> in
           if \<not> ignore_stderr w1 then append_mesg ''STDERR'' text w1 else w1))"

definition update_buffer :: "window \<Rightarrow> error \<times> window + window" where
  "update_buffer w =
     (case update_buffer_stdout w of
        Inl raised \<Rightarrow> Inl raised
      | Inr w1 \<Rightarrow> Inr (update_buffer_stderr w1))"

text \<open>
  \<open>GLib.timeout_add(100, self.update_buffer)\<close>: the callback runs again as long as it
  returns \<open>True\<close>. \<open>ticks n\<close> is \<open>n\<close> calls in a row, stopping at a call that raises.
\<close>

fun ticks :: "nat \<Rightarrow> window \<Rightarrow> error \<times> window + window" where
  "ticks 0 w = Inr w"
| "ticks (Suc n) w =
     (case update_buffer w of
        Inl raised \<Rightarrow> Inl raised
      | Inr w1 \<Rightarrow> ticks n w1)"

subsection \<open>Vocabulary of the properties\<close>

text \<open>
  The window that \<open>__init__\<close> and \<open>init_ui\<close> build: both queues and the buffer
  empty, the buttons sensitive, the spinner idle. The attributes that only \<open>execute\<close>
  assigns do not exist yet; they stand here as \<open>None\<close>, \<open>False\<close> and the empty string.
\<close>

definition new_window :: window where
  "new_window =
     \<lparr>buffer = [], output_msg = None, empty_msg = None, ignore_stderr = False,
      stdout = [], stderr = [], stdout_queue = [], stderr_queue = [],
      update_button = True, upgrade_button = True, list_button = True, spinner = False\<rparr>"

text \<open>The controls as \<open>lock\<close> and as \<open>unlock\<close> leave them.\<close>

definition locked :: "window \<Rightarrow> bool" where
  "locked w = (\<not> update_button w \<and> \<not> upgrade_button w \<and> \<not> list_button w \<and> spinner w)"

definition unlocked :: "window \<Rightarrow> bool" where
  "unlocked w = (update_button w \<and> upgrade_button w \<and> list_button w \<and> \<not> spinner w)"

text \<open>A rendered line of a level: the coloured prefix, then the text and its newline.\<close>

definition level_prefix :: "string \<Rightarrow> piece" where
  "level_prefix level = Markup (color_span (level @ '': '') (level_to_color level))"

definition mesg :: "string \<Rightarrow> string \<Rightarrow> piece list" where
  "mesg level text = [level_prefix level, Plain (text @ [CHR 0x0A])]"

definition level_lines :: "string \<Rightarrow> piece list \<Rightarrow> nat" where
  "level_lines level pieces = length (filter (\<lambda>p. p = level_prefix level) pieces)"

text \<open>What one call of \<open>update_buffer\<close> renders for the stderr queue of \<open>w\<close>.\<close>

definition stderr_rendering :: "window \<Rightarrow> piece list" where
  "stderr_rendering w =
     (case stderr_queue w of
        [] \<Rightarrow> []
      | text # rest \<Rightarrow> if ignore_stderr w then [] else mesg ''STDERR'' text)"

text \<open>The window a sequence of calls ends with, whether or not the last one raised.\<close>

definition window_of :: "error \<times> window + window \<Rightarrow> window" where
  "window_of r = (case r of Inl (e, w) \<Rightarrow> w | Inr w \<Rightarrow> w)"

text \<open>
  The data chunks that reading the keys \<open>keys\<close> puts on the queue of one stream:
  the trimmed reads of that stream that are not empty.
\<close>

definition chunks :: "stream \<Rightarrow> ready list \<Rightarrow> string list" where
  "chunks strm keys =
     filter (\<lambda>d. d \<noteq> []) (map (\<lambda>k. rstrip (the (read1 k))) (filter (\<lambda>k. fileobj k = strm) keys))"

text \<open>
  The keys of a ready sequence that the loops get to read: all up to the first one
  whose read does not decode (left out) or whose poll answers (kept).
\<close>

fun served :: "ready list \<Rightarrow> ready list" where
  "served [] = []"
| "served (key # keys) =
     (case read1 key of
        None \<Rightarrow> []
      | Some s \<Rightarrow> (case poll key of None \<Rightarrow> key # served keys | Some exit_code \<Rightarrow> [key]))"

text \<open>\<open>"EXIT %d" % exit_code\<close>, the chunk the worker ends with.\<close>

definition exit_chunk :: "int \<Rightarrow> string" where
  "exit_chunk exit_code = ''EXIT '' @ show_int exit_code"

text \<open>An operating system on which \<open>Popen\<close> raises for every command.\<close>

definition popen_fails :: "string list \<Rightarrow> environ \<Rightarrow> popen" where
  "popen_fails args env = Popen_raises"

text \<open>
  \<open>thread.start()\<close> followed to the end of the thread: \<open>run\<close> on the arguments that
  \<open>execute\<close> started it with.
\<close>

definition thread_run ::
  "(string list \<Rightarrow> environ \<Rightarrow> popen) \<Rightarrow> window \<times> (string list \<times> environ) \<Rightarrow> worker \<times> window"
where
  "thread_run os_popen started =
     (case started of (w, (args, env)) \<Rightarrow> run os_popen args env w)"

text \<open>
  Four concrete runs from a new window. \<open>spawn_failure\<close>: the update command where
  \<open>Popen\<close> raises. \<open>silent_list\<close>: the list command whose child warns on stderr, prints
  nothing on stdout and exits with code 0. \<open>killed_update\<close>: the update command whose
  child prints the line \<open>EXIT 0\<close> and is then killed by signal 9. \<open>aborted_update\<close>:
  the update command whose child prints an ordinary line and is then ended by signal 15.
\<close>

definition spawn_failure :: "worker \<times> window" where
  "spawn_failure = thread_run popen_fails (update True new_window)"

definition silent_wakeups :: "ready list list" where
  "silent_wakeups =
     [ [\<lparr>fileobj = P_stderr, read1 = Some (''WARNING: apt'' @ [CHR 0x0A]), poll = None\<rparr>],
      [\<lparr>fileobj = P_stdout, read1 = Some [], poll = Some 0\<rparr>] ]"

definition silent_child :: "string list \<Rightarrow> environ \<Rightarrow> popen" where
  "silent_child args env = Child silent_wakeups"

definition silent_list :: "worker \<times> window" where
  "silent_list = thread_run silent_child (list_upgradable True new_window)"

definition killed_wakeups :: "ready list list" where
  "killed_wakeups =
     [ [\<lparr>fileobj = P_stdout, read1 = Some (''EXIT 0'' @ [CHR 0x0A]), poll = None\<rparr>],
      [\<lparr>fileobj = P_stdout, read1 = Some [], poll = Some (- 9)\<rparr>] ]"

definition killed_child :: "string list \<Rightarrow> environ \<Rightarrow> popen" where
  "killed_child args env = Child killed_wakeups"

definition killed_update :: "worker \<times> window" where
  "killed_update = thread_run killed_child (update True new_window)"

definition aborted_wakeups :: "ready list list" where
  "aborted_wakeups =
     [ [\<lparr>fileobj = P_stdout, read1 = Some (''Reading package lists...'' @ [CHR 0x0A]),
        poll = None\<rparr>],
      [\<lparr>fileobj = P_stdout, read1 = Some [], poll = Some (- 15)\<rparr>] ]"

definition aborted_child :: "string list \<Rightarrow> environ \<Rightarrow> popen" where
  "aborted_child args env = Child aborted_wakeups"

definition aborted_update :: "worker \<times> window" where
  "aborted_update = thread_run aborted_child (update True new_window)"

text \<open>
  \<open>killed_upgrade\<close>: the full-upgrade command whose child is killed by signal 9
  before it prints anything.
\<close>

definition killed_at_once_wakeups :: "ready list list" where
  "killed_at_once_wakeups = [ [\<lparr>fileobj = P_stdout, read1 = Some [], poll = Some (- 9)\<rparr>] ]"

definition killed_at_once_child :: "string list \<Rightarrow> environ \<Rightarrow> popen" where
  "killed_at_once_child args env = Child killed_at_once_wakeups"

definition killed_upgrade :: "worker \<times> window" where
  "killed_upgrade = thread_run killed_at_once_child (upgrade new_window)"

text \<open>
  Wake-ups of three more children. \<open>fetched_wakeups\<close>: one line on stdout, then end
  of file with exit code 0. \<open>late_stderr_wakeups\<close>: a single wake-up that reports both
  streams ready, stdout at end of file and stderr holding \<open>E: locked\<close>, the child
  having exited with code 1. \<open>exit_line_wakeups n\<close>: the child prints the line
  \<open>EXIT n\<close> and is still running when the worker polls.
\<close>

definition fetched_wakeups :: "ready list list" where
  "fetched_wakeups =
     [ [\<lparr>fileobj = P_stdout, read1 = Some (''Fetched 3 lists'' @ [CHR 0x0A]), poll = None\<rparr>],
       [\<lparr>fileobj = P_stdout, read1 = Some [], poll = Some 0\<rparr>] ]"

definition late_stderr_wakeups :: "ready list list" where
  "late_stderr_wakeups =
     [ [\<lparr>fileobj = P_stdout, read1 = Some [], poll = Some 1\<rparr>,
        \<lparr>fileobj = P_stderr, read1 = Some (''E: locked'' @ [CHR 0x0A]), poll = Some 1\<rparr>] ]"

definition exit_line_wakeups :: "nat \<Rightarrow> ready list list" where
  "exit_line_wakeups n =
     [ [\<lparr>fileobj = P_stdout, read1 = Some (''EXIT '' @ show_nat n @ [CHR 0x0A]),
         poll = None\<rparr>] ]"

text \<open>
  \<open>undecodable_update\<close>: the update command whose child writes bytes that are not
  UTF-8 and exits with code 0; \<open>decode()\<close> raises on the first read.
\<close>

definition undecodable_wakeups :: "ready list list" where
  "undecodable_wakeups =
     [ [\<lparr>fileobj = P_stdout, read1 = None, poll = Some 0\<rparr>],
       [\<lparr>fileobj = P_stdout, read1 = Some [], poll = Some 0\<rparr>] ]"

definition undecodable_child :: "string list \<Rightarrow> environ \<Rightarrow> popen" where
  "undecodable_child args env = Child undecodable_wakeups"

definition undecodable_update :: "worker \<times> window" where
  "undecodable_update = thread_run undecodable_child (update True new_window)"

section \<open>Auxiliary facts\<close>

subsection \<open>Levels, lines and text\<close>

lemma level_prefix_INFO: "level_prefix ''INFO'' = Markup (''<span color='' @ [CHR 0x22] @ ''green'' @ [CHR 0x22] @ ''>INFO: </span>'')"
  by (simp add: level_prefix_def color_span_def level_to_color_def html_escape_def escape_char_def)

lemma level_prefix_neq:
  "level_prefix ''STDERR'' \<noteq> level_prefix ''STDOUT''"
  "level_prefix ''STDERR'' \<noteq> level_prefix ''INFO''"
  "level_prefix ''STDERR'' \<noteq> level_prefix ''ERROR''"
  "level_prefix ''STDOUT'' \<noteq> level_prefix ''INFO''"
  "level_prefix ''STDOUT'' \<noteq> level_prefix ''ERROR''"
  "level_prefix ''INFO'' \<noteq> level_prefix ''ERROR''"
  by (simp_all add: level_prefix_def color_span_def level_to_color_def html_escape_def escape_char_def)

lemma append_mesg_eq: "append_mesg level text w = w\<lparr>buffer := buffer w @ mesg level text\<rparr>"
  by (simp add: append_mesg_def append_text_def append_color_def mesg_def level_prefix_def)

lemma prepend_mesg_eq: "prepend_mesg level text w = w\<lparr>buffer := mesg level text @ buffer w\<rparr>"
  by (simp add: prepend_mesg_def prepend_text_def prepend_color_def mesg_def level_prefix_def)

lemma level_lines_append: "level_lines l (xs @ ys) = level_lines l xs + level_lines l ys"
  by (simp add: level_lines_def)

lemma level_lines_mesg: "level_lines l (mesg l' t) = (if level_prefix l' = level_prefix l then 1 else 0)"
  by (simp add: level_lines_def mesg_def level_prefix_def)

lemma digit_val_digit_char: "d < 10 \<Longrightarrow> digit_val (digit_char d) = int d"
  by (simp add: digit_val_def digit_char_def)

lemma is_digit_digit_char: "d < 10 \<Longrightarrow> is_digit (digit_char d)"
  by (simp add: is_digit_def digit_char_def)

lemma not_space_digit_char: "d < 10 \<Longrightarrow> \<not> is_space (digit_char d)"
  by (auto simp add: is_space_def digit_char_def)

lemma show_nat_not_Nil: "show_nat n \<noteq> []"
  by (subst show_nat.simps) simp

lemma show_nat_digits: "list_all is_digit (show_nat n)"
proof (induction n rule: show_nat.induct)
  case (1 n)
  show ?case
  proof (cases "n < 10")
    case True
    then show ?thesis by (subst show_nat.simps) (simp add: is_digit_digit_char)
  next
    case False
    with "1" show ?thesis by (subst show_nat.simps) (simp add: is_digit_digit_char)
  qed
qed

lemma int_of_digits_snoc: "int_of_digits (ds @ [c]) = 10 * int_of_digits ds + digit_val c"
  by (simp add: int_of_digits_def)

lemma int_of_digits_show_nat: "int_of_digits (show_nat n) = int n"
proof (induction n rule: show_nat.induct)
  case (1 n)
  show ?case
  proof (cases "n < 10")
    case True
    then show ?thesis
      by (subst show_nat.simps) (simp add: int_of_digits_def digit_val_digit_char)
  next
    case False
    with "1" have "int_of_digits (show_nat (n div 10)) = int (n div 10)" by simp
    moreover have "10 * int (n div 10) + int (n mod 10) = int n"
      by presburger
    ultimately show ?thesis using False
      by (subst show_nat.simps) (simp add: int_of_digits_snoc digit_val_digit_char)
  qed
qed

lemma last_show_nat_not_space: "\<not> is_space (last (show_nat n))"
  by (subst show_nat.simps) (simp add: not_space_digit_char show_nat_not_Nil)

lemma fullmatch_exit_prefix:
  "fullmatch_exit (''EXIT '' @ ds) = (if ds \<noteq> [] \<and> list_all is_digit ds then Some ds else None)"
  by (simp add: fullmatch_exit_def)

lemma fullmatch_exit_chunk:
  "fullmatch_exit (exit_chunk c) = (if 0 \<le> c then Some (show_nat (nat c)) else None)"
  by (simp add: exit_chunk_def fullmatch_exit_def show_int_def show_nat_not_Nil show_nat_digits is_digit_def)

lemma rstrip_newline: "xs \<noteq> [] \<Longrightarrow> \<not> is_space (last xs) \<Longrightarrow> rstrip (xs @ [CHR 0x0A]) = xs"
  by (cases xs rule: rev_cases) (simp_all add: rstrip_def is_space_def)

subsection \<open>One call of the timer callback\<close>

lemma level_lines_Nil: "level_lines l [] = 0"
  by (simp add: level_lines_def)

lemma buffer_update_buffer_stderr:
  "buffer (update_buffer_stderr w) = buffer w @ stderr_rendering w"
  by (simp add: update_buffer_stderr_def Let_def stderr_rendering_def append_mesg_eq split: list.splits)

lemma controls_update_buffer_stderr:
  "update_button (update_buffer_stderr w) = update_button w"
  "upgrade_button (update_buffer_stderr w) = upgrade_button w"
  "list_button (update_buffer_stderr w) = list_button w"
  "spinner (update_buffer_stderr w) = spinner w"
  by (simp_all add: update_buffer_stderr_def Let_def append_mesg_eq split: list.splits)

lemma unlocked_update_buffer_stderr: "unlocked (update_buffer_stderr w) = unlocked w"
  by (simp add: unlocked_def controls_update_buffer_stderr)

lemma locked_update_buffer_stderr: "locked (update_buffer_stderr w) = locked w"
  by (simp add: locked_def controls_update_buffer_stderr)

lemma level_lines_stderr_rendering:
  "level_prefix l \<noteq> level_prefix ''STDERR'' \<Longrightarrow> level_lines l (stderr_rendering w) = 0"
  by (auto simp add: stderr_rendering_def level_lines_mesg level_lines_Nil split: list.splits)

lemma stderr_rendering_cong:
  "stderr_queue w1 = stderr_queue w \<Longrightarrow> ignore_stderr w1 = ignore_stderr w
     \<Longrightarrow> stderr_rendering w1 = stderr_rendering w"
  by (simp add: stderr_rendering_def split: list.splits)

lemma unlocked_unlock: "unlocked (unlock w)"
  by (simp add: unlocked_def unlock_def)

lemma update_buffer_Inr:
  "update_buffer_stdout w = Inr w1 \<Longrightarrow> update_buffer w = Inr (update_buffer_stderr w1)"
  by (simp add: update_buffer_def)

lemma level_lines_snoc:
  "level_lines l (xs @ [p]) = level_lines l xs + (if p = level_prefix l then 1 else 0)"
  by (simp add: level_lines_def)

lemma append_color_INFO:
  "append_color ''INFO: '' (level_to_color ''INFO'') w = w\<lparr>buffer := buffer w @ [level_prefix ''INFO'']\<rparr>"
  by (simp add: append_color_def level_prefix_def)

lemma level_lines_single:
  "level_lines l [p] = (if p = level_prefix l then 1 else 0)"
  by (simp add: level_lines_def)

lemma update_buffer_stdout_keeps_stderr:
  "level_lines ''STDERR'' (buffer (window_of (update_buffer_stdout w)))
     = level_lines ''STDERR'' (buffer w)"
  "ignore_stderr (window_of (update_buffer_stdout w)) = ignore_stderr w"
  "stderr (window_of (update_buffer_stdout w)) = stderr w"
  "stderr_queue (window_of (update_buffer_stdout w)) = stderr_queue w"
  by (simp_all add: update_buffer_stdout_def Let_def window_of_def append_mesg_eq unlock_def
      append_color_INFO level_lines_append level_lines_mesg level_lines_single
      level_prefix_neq level_prefix_neq [symmetric]
      split: list.splits option.splits)

lemma update_buffer_cases:
  "(\<exists>e w1. update_buffer_stdout w = Inl (e, w1) \<and> update_buffer w = Inl (e, w1))
   \<or> (\<exists>w1. update_buffer_stdout w = Inr w1 \<and> update_buffer w = Inr (update_buffer_stderr w1))"
  by (cases "update_buffer_stdout w") (auto simp add: update_buffer_def)

lemma update_buffer_stderr_ignored:
  assumes "ignore_stderr w"
  shows "level_lines ''STDERR'' (buffer (update_buffer_stderr w)) = level_lines ''STDERR'' (buffer w)"
    and "ignore_stderr (update_buffer_stderr w)"
    and "stderr (update_buffer_stderr w) = stderr w @ concat (take 1 (stderr_queue w))"
    and "stderr_queue (update_buffer_stderr w) = drop 1 (stderr_queue w)"
  using assms
  by (simp_all add: update_buffer_stderr_def Let_def split: list.splits)

lemma update_buffer_ignored:
  assumes "ignore_stderr w"
  shows "level_lines ''STDERR'' (buffer (window_of (update_buffer w)))
           = level_lines ''STDERR'' (buffer w)"
    and "ignore_stderr (window_of (update_buffer w))"
    and "update_buffer w = Inr w' \<Longrightarrow> stderr w' = stderr w @ concat (take 1 (stderr_queue w))"
    and "update_buffer w = Inr w' \<Longrightarrow> stderr_queue w' = drop 1 (stderr_queue w)"
proof -
  from update_buffer_cases [of w]
  consider (raised) e w1 where "update_buffer_stdout w = Inl (e, w1)" "update_buffer w = Inl (e, w1)"
    | (ok) w1 where "update_buffer_stdout w = Inr w1" "update_buffer w = Inr (update_buffer_stderr w1)"
    by blast
  then have "level_lines ''STDERR'' (buffer (window_of (update_buffer w)))
           = level_lines ''STDERR'' (buffer w)
     \<and> ignore_stderr (window_of (update_buffer w))
     \<and> (update_buffer w = Inr w' \<longrightarrow> stderr w' = stderr w @ concat (take 1 (stderr_queue w))
          \<and> stderr_queue w' = drop 1 (stderr_queue w))"
  proof cases
    case raised
    with update_buffer_stdout_keeps_stderr [of w] assms show ?thesis
      by (simp add: window_of_def)
  next
    case ok
    with update_buffer_stdout_keeps_stderr [of w] assms
    have w1: "level_lines ''STDERR'' (buffer w1) = level_lines ''STDERR'' (buffer w)"
      "ignore_stderr w1" "stderr w1 = stderr w" "stderr_queue w1 = stderr_queue w"
      by (simp_all add: window_of_def)
    from update_buffer_stderr_ignored [OF w1(2)] w1 ok show ?thesis
      by (auto simp add: window_of_def)
  qed
  then show "level_lines ''STDERR'' (buffer (window_of (update_buffer w)))
           = level_lines ''STDERR'' (buffer w)"
    and "ignore_stderr (window_of (update_buffer w))"
    and "update_buffer w = Inr w' \<Longrightarrow> stderr w' = stderr w @ concat (take 1 (stderr_queue w))"
    and "update_buffer w = Inr w' \<Longrightarrow> stderr_queue w' = drop 1 (stderr_queue w)"
    by simp_all
qed

subsection \<open>The worker's loops\<close>

lemma run_keys_append:
  "run_keys (xs @ ys) w =
     (case run_keys xs w of
        (Selecting, w') \<Rightarrow> run_keys ys w'
      | (Returned, w') \<Rightarrow> (Returned, w')
      | (Raised e, w') \<Rightarrow> (Raised e, w'))"
  by (induction xs arbitrary: w) (simp_all add: Let_def split: option.splits)

lemma run_loop_concat: "run_loop wakeups w = run_keys (concat wakeups) w"
proof (induction wakeups arbitrary: w)
  case Nil
  show ?case by simp
next
  case (Cons keys rest)
  obtain st w' where r: "run_keys keys w = (st, w')" by (cases "run_keys keys w")
  show ?case
    by (cases st) (simp_all add: r run_keys_append Cons.IH)
qed

lemma chunks_Nil: "chunks strm [] = []"
  by (simp add: chunks_def)

lemma chunks_Cons:
  "chunks strm (k # ks) =
     (if fileobj k = strm \<and> rstrip (the (read1 k)) \<noteq> [] then [rstrip (the (read1 k))] else [])
     @ chunks strm ks"
  by (simp add: chunks_def)

lemma run_keys_fields:
  "buffer (snd (run_keys keys w)) = buffer w"
  "output_msg (snd (run_keys keys w)) = output_msg w"
  "empty_msg (snd (run_keys keys w)) = empty_msg w"
  "ignore_stderr (snd (run_keys keys w)) = ignore_stderr w"
  "stdout (snd (run_keys keys w)) = stdout w"
  "stderr (snd (run_keys keys w)) = stderr w"
  "update_button (snd (run_keys keys w)) = update_button w"
  "upgrade_button (snd (run_keys keys w)) = upgrade_button w"
  "list_button (snd (run_keys keys w)) = list_button w"
  "spinner (snd (run_keys keys w)) = spinner w"
  by (induction keys arbitrary: w; simp add: Let_def split: option.splits)+

lemma locked_run_keys: "locked (snd (run_keys keys w)) = locked w"
  by (simp add: locked_def run_keys_fields)

lemma served_not_Nil: "fst (run_keys keys w) = Returned \<Longrightarrow> served keys \<noteq> []"
  by (induction keys arbitrary: w) (simp_all add: Let_def split: option.splits)

lemma run_keys_stderr_queue:
  "stderr_queue (snd (run_keys keys w)) = stderr_queue w @ chunks P_stderr (served keys)"
proof (induction keys arbitrary: w)
  case Nil
  show ?case by (simp add: chunks_Nil)
next
  case (Cons k ks)
  show ?case
    by (cases "fileobj k")
      (simp_all add: Let_def chunks_Nil chunks_Cons Cons.IH split: option.splits)
qed

lemma run_keys_stdout_queue:
  "stdout_queue (snd (run_keys keys w)) =
     stdout_queue w @ chunks P_stdout (served keys)
       @ (case fst (run_keys keys w) of
            Returned \<Rightarrow> [exit_chunk (the (poll (last (served keys))))]
          | _ \<Rightarrow> [])"
proof (induction keys arbitrary: w)
  case Nil
  show ?case by (simp add: chunks_Nil)
next
  case (Cons k ks)
  show ?case
  proof (cases "read1 k")
    case None
    then show ?thesis by (simp add: chunks_Nil)
  next
    case (Some s)
    note read = this
    show ?thesis
    proof (cases "poll k")
      case (Some c)
      with read show ?thesis
        by (cases "fileobj k") (simp_all add: Let_def chunks_Nil chunks_Cons exit_chunk_def)
    next
      case None
      define w1 where "w1 = (if rstrip s \<noteq> [] then
                       (if fileobj k = P_stdout
                        then w\<lparr>stdout_queue := stdout_queue w @ [rstrip s]\<rparr>
                        else w\<lparr>stderr_queue := stderr_queue w @ [rstrip s]\<rparr>)
                     else w)"
      from read None have step: "run_keys (k # ks) w = run_keys ks w1"
        by (simp add: Let_def w1_def)
      from read None have sv: "served (k # ks) = k # served ks" by simp
      have q: "stdout_queue w1 = stdout_queue w @ chunks P_stdout [k]"
        using read by (cases "fileobj k") (simp_all add: w1_def chunks_Cons chunks_Nil)
      have ch: "chunks P_stdout (k # served ks) = chunks P_stdout [k] @ chunks P_stdout (served ks)"
        by (simp add: chunks_Cons chunks_Nil)
      show ?thesis
      proof (cases "fst (run_keys ks w1) = Returned")
        case True
        then have "served ks \<noteq> []" by (rule served_not_Nil)
        then have "last (k # served ks) = last (served ks)" by simp
        with Cons.IH [of w1] True show ?thesis
          by (simp only: step sv q ch) simp
      next
        case False
        with Cons.IH [of w1] show ?thesis
          by (simp only: step sv q ch) (simp split: worker.splits)
      qed
    qed
  qed
qed

lemma served_prefix: "\<exists>rest. keys = served keys @ rest"
  by (induction keys) (simp_all split: option.splits)

lemma served_polls: "list_all (\<lambda>k. poll k = None) (butlast (served keys))"
  by (induction keys) (simp_all split: option.splits)

lemma served_last_poll:
  "fst (run_keys keys w) = Returned \<Longrightarrow> \<exists>exit_code. poll (last (served keys)) = Some exit_code"
proof (induction keys arbitrary: w)
  case Nil
  then show ?case by simp
next
  case (Cons k ks)
  show ?case
  proof (cases "read1 k")
    case None
    with Cons.prems show ?thesis by simp
  next
    case (Some s)
    note read = this
    show ?thesis
    proof (cases "poll k")
      case (Some c)
      with read show ?thesis by simp
    next
      case None
      with read Cons.prems obtain w1 where r: "fst (run_keys ks w1) = Returned"
        by (auto simp add: Let_def)
      from served_not_Nil [OF r] Cons.IH [OF r] read None show ?thesis by simp
    qed
  qed
qed

lemma show_int_values:
  "show_int 0 = ''0''" "show_int 1 = ''1''" "show_int 3 = ''3''" "show_int (- 9) = ''-9''"
  "show_int 100 = ''100''" "show_int (- 15) = ''-15''"
  by code_simp+

lemma int_of_digits_values:
  "int_of_digits ''0'' = 0" "int_of_digits ''100'' = 100" "int_of_digits ''3'' = 3"
  by (simp_all add: int_of_digits_def digit_val_def)

lemma fullmatch_exit_values:
  "fullmatch_exit ''EXIT 0'' = Some ''0''"
  "fullmatch_exit ''EXIT 100'' = Some ''100''"
  "fullmatch_exit ''EXIT 3'' = Some ''3''"
  "fullmatch_exit ''EXIT -9'' = None"
  by (simp_all add: fullmatch_exit_def is_digit_def)

subsection \<open>Calls of the timer callback by the kind of chunk\<close>

lemma update_buffer_terminal_nonzero:
  assumes "stdout_queue w = text # rest"
    and "fullmatch_exit text = Some digits"
    and "int_of_digits digits \<noteq> 0"
  shows "update_buffer w = Inr (update_buffer_stderr (unlock (append_mesg ''ERROR''
           (''Command exited with code '' @ show_int (int_of_digits digits))
           (w\<lparr>stdout_queue := rest\<rparr>))))"
  using assms by (simp add: update_buffer_def update_buffer_stdout_def Let_def)

lemma update_buffer_terminal_message:
  assumes "stdout_queue w = text # rest"
    and "fullmatch_exit text = Some digits"
    and "int_of_digits digits = 0"
    and "empty_msg w = Some em"
    and "stdout w = [] \<or> output_msg w \<noteq> None"
  shows "update_buffer w = Inr (update_buffer_stderr (unlock (append_mesg ''INFO'' em
           (w\<lparr>stdout_queue := rest\<rparr>))))"
  using assms by (auto simp add: update_buffer_def update_buffer_stdout_def Let_def)

lemma update_buffer_data:
  assumes "stdout_queue w = text # rest"
    and "fullmatch_exit text = None"
  shows "update_buffer w = Inr (update_buffer_stderr (append_mesg ''STDOUT'' text
           (w\<lparr>stdout_queue := rest, stdout := stdout w @ text\<rparr>)))"
  using assms by (simp add: update_buffer_def update_buffer_stdout_def Let_def)

lemma update_buffer_idle:
  assumes "stdout_queue w = []"
  shows "update_buffer w = Inr (update_buffer_stderr w)"
  using assms by (simp add: update_buffer_def update_buffer_stdout_def)

lemma update_buffer_stderr_idle: "stderr_queue w = [] \<Longrightarrow> update_buffer_stderr w = w"
  by (simp add: update_buffer_stderr_def)

lemma terminal_line_rendered:
  "buffer (update_buffer_stderr (unlock (append_mesg level text (w\<lparr>stdout_queue := rest\<rparr>))))
     = buffer w @ mesg level text @ stderr_rendering w"
  "unlocked (update_buffer_stderr (unlock (append_mesg level text (w\<lparr>stdout_queue := rest\<rparr>))))"
proof -
  let ?w1 = "unlock (append_mesg level text (w\<lparr>stdout_queue := rest\<rparr>))"
  have "stderr_rendering ?w1 = stderr_rendering w"
    by (rule stderr_rendering_cong) (simp_all add: unlock_def append_mesg_eq)
  moreover have "buffer ?w1 = buffer w @ mesg level text"
    by (simp add: unlock_def append_mesg_eq)
  ultimately show "buffer (update_buffer_stderr ?w1) = buffer w @ mesg level text @ stderr_rendering w"
    by (simp add: buffer_update_buffer_stderr)
  show "unlocked (update_buffer_stderr ?w1)"
    by (simp add: unlocked_update_buffer_stderr unlocked_unlock)
qed

lemma data_line_rendered:
  "buffer (update_buffer_stderr (append_mesg ''STDOUT'' text
       (w\<lparr>stdout_queue := rest, stdout := stdout w @ text\<rparr>)))
     = buffer w @ mesg ''STDOUT'' text @ stderr_rendering w"
  "locked (update_buffer_stderr (append_mesg ''STDOUT'' text
       (w\<lparr>stdout_queue := rest, stdout := stdout w @ text\<rparr>))) = locked w"
  "stdout (update_buffer_stderr (append_mesg ''STDOUT'' text
       (w\<lparr>stdout_queue := rest, stdout := stdout w @ text\<rparr>))) = stdout w @ text"
  "stdout_queue (update_buffer_stderr (append_mesg ''STDOUT'' text
       (w\<lparr>stdout_queue := rest, stdout := stdout w @ text\<rparr>))) = rest"
proof -
  let ?w1 = "append_mesg ''STDOUT'' text (w\<lparr>stdout_queue := rest, stdout := stdout w @ text\<rparr>)"
  have "stderr_rendering ?w1 = stderr_rendering w"
    by (rule stderr_rendering_cong) (simp_all add: append_mesg_eq)
  moreover have "buffer ?w1 = buffer w @ mesg ''STDOUT'' text"
    by (simp add: append_mesg_eq)
  ultimately show "buffer (update_buffer_stderr ?w1)
      = buffer w @ mesg ''STDOUT'' text @ stderr_rendering w"
    by (simp add: buffer_update_buffer_stderr)
  show "locked (update_buffer_stderr ?w1) = locked w"
    by (simp add: locked_update_buffer_stderr) (simp add: locked_def append_mesg_eq)
  show "stdout (update_buffer_stderr ?w1) = stdout w @ text"
    by (simp add: update_buffer_stderr_def Let_def append_mesg_eq split: list.splits)
  show "stdout_queue (update_buffer_stderr ?w1) = rest"
    by (simp add: update_buffer_stderr_def Let_def append_mesg_eq split: list.splits)
qed

lemma update_buffer_no_terminal:
  assumes "list_all (\<lambda>t. fullmatch_exit t = None) (stdout_queue w)"
  shows "\<exists>w'. update_buffer w = Inr w' \<and> locked w' = locked w
           \<and> level_lines ''ERROR'' (buffer w') = level_lines ''ERROR'' (buffer w)
           \<and> stdout_queue w' = drop 1 (stdout_queue w)"
proof (cases "stdout_queue w")
  case Nil
  then have "update_buffer w = Inr (update_buffer_stderr w)" by (rule update_buffer_idle)
  moreover have "stdout_queue (update_buffer_stderr w) = stdout_queue w"
    by (simp add: update_buffer_stderr_def Let_def append_mesg_eq split: list.splits)
  moreover have "level_lines ''ERROR'' (buffer (update_buffer_stderr w))
      = level_lines ''ERROR'' (buffer w)"
    by (simp add: buffer_update_buffer_stderr level_lines_append level_lines_stderr_rendering
        level_prefix_neq [symmetric])
  ultimately show ?thesis using Nil by (simp add: locked_update_buffer_stderr)
next
  case (Cons chunk rest)
  with assms have "fullmatch_exit chunk = None" by simp
  with Cons have "update_buffer w = Inr (update_buffer_stderr (append_mesg ''STDOUT'' chunk
           (w\<lparr>stdout_queue := rest, stdout := stdout w @ chunk\<rparr>)))"
    by (rule update_buffer_data)
  moreover have "level_lines ''ERROR'' (buffer w @ mesg ''STDOUT'' chunk @ stderr_rendering w)
      = level_lines ''ERROR'' (buffer w)"
    by (simp add: level_lines_append level_lines_mesg level_lines_stderr_rendering
        level_prefix_neq level_prefix_neq [symmetric])
  ultimately show ?thesis using Cons by (simp add: data_line_rendered)
qed

lemma ticks_no_terminal:
  assumes "list_all (\<lambda>t. fullmatch_exit t = None) (stdout_queue w)"
  shows "\<exists>w'. ticks n w = Inr w' \<and> locked w' = locked w
           \<and> level_lines ''ERROR'' (buffer w') = level_lines ''ERROR'' (buffer w)
           \<and> stdout_queue w' = drop n (stdout_queue w)"
  using assms
proof (induction n arbitrary: w)
  case 0
  show ?case by simp
next
  case (Suc n)
  from update_buffer_no_terminal [OF Suc.prems] obtain w1
    where w1: "update_buffer w = Inr w1" "locked w1 = locked w"
      "level_lines ''ERROR'' (buffer w1) = level_lines ''ERROR'' (buffer w)"
      "stdout_queue w1 = drop 1 (stdout_queue w)"
    by blast
  from Suc.prems w1(4) have "list_all (\<lambda>t. fullmatch_exit t = None) (stdout_queue w1)"
    by (cases "stdout_queue w") simp_all
  from Suc.IH [OF this] obtain w' where "ticks n w1 = Inr w'" "locked w' = locked w1"
      "level_lines ''ERROR'' (buffer w') = level_lines ''ERROR'' (buffer w1)"
      "stdout_queue w' = drop n (stdout_queue w1)"
    by blast
  with w1 show ?case by simp
qed

subsection \<open>A whole run of the worker, and \<open>execute\<close>\<close>

lemma run_loop_fields:
  "buffer (snd (run_loop wakeups w)) = buffer w"
  "output_msg (snd (run_loop wakeups w)) = output_msg w"
  "empty_msg (snd (run_loop wakeups w)) = empty_msg w"
  "ignore_stderr (snd (run_loop wakeups w)) = ignore_stderr w"
  "stdout (snd (run_loop wakeups w)) = stdout w"
  "stderr (snd (run_loop wakeups w)) = stderr w"
  "locked (snd (run_loop wakeups w)) = locked w"
  by (simp_all add: run_loop_concat run_keys_fields locked_run_keys)

lemma served_subset: "set (served keys) \<subseteq> set keys"
  by (induction keys) (auto split: option.splits)

lemma last_served_in:
  "served keys \<noteq> [] \<Longrightarrow> last (served keys) \<in> set keys"
  using served_subset [of keys] last_in_set [of "served keys"] by blast

lemma rstrip_Nil: "rstrip [] = []"
  by (simp add: rstrip_def)

lemma chunks_silent:
  "list_all (\<lambda>k. read1 k = Some []) (filter (\<lambda>k. fileobj k = strm) keys)
     \<Longrightarrow> chunks strm (served keys) = []"
  by (induction keys)
    (auto simp add: chunks_Nil chunks_Cons rstrip_Nil split: option.splits if_splits)

lemma show_int_nat: "show_int (int n) = show_nat n"
  by (simp add: show_int_def)

lemma execute_fields:
  "snd (execute args ign om em env clr w) = (args, env)"
  "output_msg (fst (execute args ign om em env clr w)) = om"
  "empty_msg (fst (execute args ign om em env clr w)) = em"
  "ignore_stderr (fst (execute args ign om em env clr w)) = ign"
  "stdout (fst (execute args ign om em env clr w)) = []"
  "stderr (fst (execute args ign om em env clr w)) = []"
  "stdout_queue (fst (execute args ign om em env clr w)) = stdout_queue w"
  "stderr_queue (fst (execute args ign om em env clr w)) = stderr_queue w"
  "locked (fst (execute args ign om em env clr w))"
  "buffer (fst (execute args ign om em env clr w))
     = mesg ''INFO'' (''Running command '' @ [CHR 0x22] @ join_space args @ [CHR 0x22] @ '' ...'')
       @ (if clr then [] else buffer w)"
  by (simp_all add: execute_def Let_def lock_def clear_def prepend_mesg_eq locked_def)

lemma rstrip_values:
  "rstrip (''Fetched 3 lists'' @ [CHR 0x0A]) = ''Fetched 3 lists''"
  "rstrip (''EXIT 0'' @ [CHR 0x0A]) = ''EXIT 0''"
  "rstrip (''E: locked'' @ [CHR 0x0A]) = ''E: locked''"
  by (simp_all add: rstrip_def is_space_def)

lemma ticks_idle:
  "stdout_queue w = [] \<Longrightarrow> stderr_queue w = [] \<Longrightarrow> ticks n w = Inr w"
  by (induction n) (simp_all add: update_buffer_idle update_buffer_stderr_idle)

lemma stderr_rendering_stdout_queue:
  "stderr_rendering (w\<lparr>stdout_queue := q\<rparr>) = stderr_rendering w"
  by (rule stderr_rendering_cong) simp_all

lemma stderr_rendering_ignored: "ignore_stderr w \<Longrightarrow> stderr_rendering w = []"
  by (simp add: stderr_rendering_def split: list.splits)

lemma list_upgradable_fields:
  "empty_msg (fst (list_upgradable clr w)) = Some ''Comando executado!''"
  "output_msg (fst (list_upgradable clr w)) = Some ''Found the following package upgrades:''"
  "ignore_stderr (fst (list_upgradable clr w))"
  "stdout (fst (list_upgradable clr w)) = []"
  "stdout_queue (fst (list_upgradable clr w)) = stdout_queue w"
  by (simp_all add: list_upgradable_def execute_fields)

lemma returned_exit_chunk:
  assumes "run_loop wakeups w = (Returned, w1)"
  shows "\<exists>key exit_code. key \<in> set (concat wakeups) \<and> poll key = Some exit_code
           \<and> stdout_queue w1
               = stdout_queue w @ chunks P_stdout (served (concat wakeups)) @ [exit_chunk exit_code]"
proof -
  let ?keys = "concat wakeups"
  from assms have r: "run_keys ?keys w = (Returned, w1)" by (simp add: run_loop_concat)
  then have ret: "fst (run_keys ?keys w) = Returned" by simp
  from served_last_poll [OF ret] obtain exit_code
    where c: "poll (last (served ?keys)) = Some exit_code" by blast
  from ret have "served ?keys \<noteq> []" by (rule served_not_Nil)
  then have "last (served ?keys) \<in> set ?keys" by (rule last_served_in)
  moreover have "stdout_queue w1
      = stdout_queue w @ chunks P_stdout (served ?keys) @ [exit_chunk exit_code]"
    using run_keys_stdout_queue [of ?keys w] r c by simp
  ultimately show ?thesis using c by blast
qed

lemma thread_run_eq:
  "thread_run os_popen started
     = run os_popen (fst (snd started)) (snd (snd started)) (fst started)"
  by (simp add: thread_run_def split: prod.splits)

lemma silent_wakeups_run:
  "run_loop silent_wakeups w
   = (Returned, w\<lparr>stderr_queue := stderr_queue w @ [''WARNING: apt''],
                   stdout_queue := stdout_queue w @ [''EXIT 0'']\<rparr>)"
proof -
  have "rstrip (''WARNING: apt'' @ [CHR 0x0A]) = ''WARNING: apt''"
    by (simp add: rstrip_def is_space_def)
  then show ?thesis by (simp add: silent_wakeups_def rstrip_Nil show_int_values)
qed

lemma silent_list_eq:
  "silent_list = (Returned,
     (fst (list_upgradable True new_window))
       \<lparr>stderr_queue := [''WARNING: apt''], stdout_queue := [''EXIT 0'']\<rparr>)"
proof -
  have "stdout_queue (fst (list_upgradable True new_window)) = []"
    "stderr_queue (fst (list_upgradable True new_window)) = []"
    by (simp_all add: list_upgradable_def execute_fields new_window_def)
  then show ?thesis
    by (simp add: silent_list_def thread_run_eq run_def silent_child_def silent_wakeups_run)
qed

lemma killed_wakeups_run:
  "run_loop killed_wakeups w
   = (Returned, w\<lparr>stdout_queue := stdout_queue w @ [''EXIT 0'', ''EXIT -9'']\<rparr>)"
  using rstrip_values(2) by (simp add: killed_wakeups_def rstrip_Nil show_int_values)

lemma aborted_wakeups_run:
  "run_loop aborted_wakeups w
   = (Returned, w\<lparr>stdout_queue := stdout_queue w @ [''Reading package lists...'', ''EXIT -15'']\<rparr>)"
proof -
  have "rstrip (''Reading package lists...'' @ [CHR 0x0A]) = ''Reading package lists...''"
    by (simp add: rstrip_def is_space_def)
  then show ?thesis by (simp add: aborted_wakeups_def rstrip_Nil show_int_values)
qed

lemma update_fields:
  "snd (update clr w) = ([''/usr/bin/apt'', ''-y'', ''update''], [(''DEBIAN_FRONTEND'', ''noninteractive'')])"
  "stdout_queue (fst (update clr w)) = stdout_queue w"
  "stderr_queue (fst (update clr w)) = stderr_queue w"
  "locked (fst (update clr w))"
  "empty_msg (fst (update clr w)) = None"
  "output_msg (fst (update clr w)) = None"
  "stdout (fst (update clr w)) = []"
  by (simp_all add: update_def execute_fields)

lemma killed_update_eq:
  "killed_update = (Returned, (fst (update True new_window))\<lparr>stdout_queue := [''EXIT 0'', ''EXIT -9'']\<rparr>)"
proof -
  have "stdout_queue (fst (update True new_window)) = []"
    by (simp add: update_fields new_window_def)
  then show ?thesis
    by (simp add: killed_update_def thread_run_eq run_def killed_child_def killed_wakeups_run)
qed

lemma aborted_update_eq:
  "aborted_update = (Returned,
     (fst (update True new_window))\<lparr>stdout_queue := [''Reading package lists...'', ''EXIT -15'']\<rparr>)"
proof -
  have "stdout_queue (fst (update True new_window)) = []"
    by (simp add: update_fields new_window_def)
  then show ?thesis
    by (simp add: aborted_update_def thread_run_eq run_def aborted_child_def aborted_wakeups_run)
qed

lemma unlocked_window_of_Inr: "unlocked (window_of (Inr w)) = unlocked w"
  by (simp add: window_of_def)

lemma served_reads: "list_all (\<lambda>k. read1 k \<noteq> None) (served keys)"
  by (induction keys) (simp_all split: option.splits)

lemma fetched_wakeups_run:
  "run_loop fetched_wakeups w
   = (Returned, w\<lparr>stdout_queue := stdout_queue w @ [''Fetched 3 lists'', ''EXIT 0'']\<rparr>)"
  using rstrip_values(1) by (simp add: fetched_wakeups_def rstrip_Nil show_int_values)

lemma killed_at_once_wakeups_run:
  "run_loop killed_at_once_wakeups w
   = (Returned, w\<lparr>stdout_queue := stdout_queue w @ [''EXIT -9'']\<rparr>)"
  by (simp add: killed_at_once_wakeups_def rstrip_Nil show_int_values)

lemma upgrade_fields:
  "snd (upgrade w) = ([''/usr/bin/apt'', ''-yqq'', ''full-upgrade''],
                      [(''DEBIAN_FRONTEND'', ''noninteractive'')])"
  "stdout_queue (fst (upgrade w)) = stdout_queue w"
  "stderr_queue (fst (upgrade w)) = stderr_queue w"
  "locked (fst (upgrade w))"
  "empty_msg (fst (upgrade w)) = Some ''No package upgrades were performed.''"
  "output_msg (fst (upgrade w)) = None"
  "stdout (fst (upgrade w)) = []"
  "ignore_stderr (fst (upgrade w)) = False"
  by (simp_all add: upgrade_def execute_fields)

lemma killed_upgrade_eq:
  "killed_upgrade = (Returned, (fst (upgrade new_window))\<lparr>stdout_queue := [''EXIT -9'']\<rparr>)"
proof -
  have "stdout_queue (fst (upgrade new_window)) = []"
    by (simp add: upgrade_fields new_window_def)
  then show ?thesis
    by (simp add: killed_upgrade_def thread_run_eq run_def killed_at_once_child_def
        killed_at_once_wakeups_run)
qed

lemma positive_exit_chunk_rendered:
  assumes "stdout_queue w = exit_chunk n # rest"
    and "0 < n"
  shows "\<exists>w'. update_buffer w = Inr w'
           \<and> buffer w' = buffer w
               @ mesg ''ERROR'' (''Command exited with code '' @ show_int n)
               @ stderr_rendering w
           \<and> unlocked w'"
proof -
  from assms(2) have m: "fullmatch_exit (exit_chunk n) = Some (show_nat (nat n))"
    by (simp add: fullmatch_exit_chunk)
  from assms(2) have v: "int_of_digits (show_nat (nat n)) = n"
    by (simp add: int_of_digits_show_nat)
  with assms(2) have nz: "int_of_digits (show_nat (nat n)) \<noteq> 0" by simp
  from update_buffer_terminal_nonzero [OF assms(1) m nz] show ?thesis
    by (simp add: terminal_line_rendered v)
qed

subsection \<open>Runs in which a poll answers\<close>

lemma served_exit:
  assumes "list_all (\<lambda>k. read1 k \<noteq> None \<and> poll k = None) before"
    and "read1 key \<noteq> None"
    and "poll key = Some exit_code"
  shows "served (before @ key # after) = before @ [key]"
  using assms by (induction before) auto

lemma served_running:
  assumes "list_all (\<lambda>k. read1 k \<noteq> None \<and> poll k = None) before"
  shows "served before = before"
  using assms by (induction before) auto

lemma run_keys_returned:
  assumes "list_all (\<lambda>k. read1 k \<noteq> None \<and> poll k = None) before"
    and "read1 key \<noteq> None"
    and "poll key = Some exit_code"
  shows "fst (run_keys (before @ key # after) w) = Returned"
  using assms by (induction before arbitrary: w) (auto simp add: Let_def)

lemma run_keys_selecting:
  assumes "list_all (\<lambda>k. read1 k \<noteq> None \<and> poll k = None) before"
  shows "fst (run_keys before w) = Selecting"
  using assms by (induction before arbitrary: w) (auto simp add: Let_def)

lemma undecodable_update_eq:
  "undecodable_update = (Raised UnicodeDecodeError, fst (update True new_window))"
  by (simp add: undecodable_update_def thread_run_eq run_def undecodable_child_def
      undecodable_wakeups_def update_fields)

section \<open>The timer callback on a terminal chunk\<close>

text \<open>
  Claim C6. The worker writes the terminal chunk with \<open>"EXIT %d"\<close> and the consumer
  reads it back with \<open>EXIT (\d+)\<close>, which has no place for a minus sign. For a
  positive exit code the call of \<open>update_buffer\<close> renders the ERROR line and enables
  the controls (\<open>positive_exit_chunk_rendered\<close>). For the full-upgrade command whose
  child is killed by signal 9 the code is \<open>-9\<close>: the chunk \<open>EXIT -9\<close> is rendered as
  a STDOUT line, and after any number of calls the buffer holds no ERROR line and the
  controls are still disabled.
\<close>

theorem signal_exit_no_error_line:
  "fst killed_upgrade = Returned
   \<and> stdout_queue (snd killed_upgrade) = [''EXIT -9'']
   \<and> buffer (window_of (ticks 1 (snd killed_upgrade)))
       = buffer (snd killed_upgrade) @ mesg ''STDOUT'' ''EXIT -9''
   \<and> stdout_queue (window_of (ticks 1 (snd killed_upgrade))) = []
   \<and> (\<forall>n. level_lines ''ERROR'' (buffer (window_of (ticks n (snd killed_upgrade)))) = 0
          \<and> locked (window_of (ticks n (snd killed_upgrade))))"
proof -
  let ?w1 = "(fst (upgrade new_window))\<lparr>stdout_queue := [''EXIT -9'']\<rparr>"
  have h1: "stdout_queue ?w1 = ''EXIT -9'' # []" by simp
  have sr: "stderr_rendering (fst (upgrade new_window)) = []"
    by (simp add: stderr_rendering_def upgrade_fields new_window_def)
  from update_buffer_data [OF h1 fullmatch_exit_values(4)]
  have one: "buffer (window_of (ticks 1 ?w1)) = buffer ?w1 @ mesg ''STDOUT'' ''EXIT -9''"
    "stdout_queue (window_of (ticks 1 ?w1)) = []"
    by (simp_all add: window_of_def data_line_rendered stderr_rendering_stdout_queue sr)
  have all: "list_all (\<lambda>t. fullmatch_exit t = None) (stdout_queue ?w1)"
    by (simp add: fullmatch_exit_values)
  have lk: "locked ?w1" using upgrade_fields(4) [of new_window] by (simp add: locked_def)
  have err: "level_lines ''ERROR'' (buffer ?w1) = 0"
    by (simp add: upgrade_def execute_fields level_lines_append level_lines_mesg
        level_lines_Nil level_prefix_neq)
  have "\<forall>n. level_lines ''ERROR'' (buffer (window_of (ticks n ?w1))) = 0
          \<and> locked (window_of (ticks n ?w1))"
  proof
    fix n
    from ticks_no_terminal [OF all, of n] obtain w'
      where "ticks n ?w1 = Inr w'" "locked w' = locked ?w1"
        "level_lines ''ERROR'' (buffer w') = level_lines ''ERROR'' (buffer ?w1)"
      by blast
    with lk err show "level_lines ''ERROR'' (buffer (window_of (ticks n ?w1))) = 0
          \<and> locked (window_of (ticks n ?w1))"
      by (simp add: window_of_def)
  qed
  with one show ?thesis by (simp add: killed_upgrade_eq)
qed

text \<open>
  Claim C7. When the terminal chunk carries exit code 0, the accumulated stdout is
  empty and an \<open>empty_msg\<close> is configured, the call renders exactly one INFO line, whose
  text is that message, and no STDOUT line.
\<close>

theorem empty_output_message_line:
  assumes "stdout_queue w = text # rest"
    and "fullmatch_exit text = Some digits"
    and "int_of_digits digits = 0"
    and "stdout w = []"
    and "empty_msg w = Some em"
  shows "\<exists>w'. update_buffer w = Inr w'
           \<and> buffer w' = buffer w @ mesg ''INFO'' em @ stderr_rendering w
           \<and> level_lines ''INFO'' (buffer w') = level_lines ''INFO'' (buffer w) + 1
           \<and> level_lines ''STDOUT'' (buffer w') = level_lines ''STDOUT'' (buffer w)"
proof -
  from assms have run: "update_buffer w = Inr (update_buffer_stderr (unlock (append_mesg ''INFO'' em
           (w\<lparr>stdout_queue := rest\<rparr>))))"
    by (intro update_buffer_terminal_message) simp_all
  have "level_lines ''INFO'' (buffer w @ mesg ''INFO'' em @ stderr_rendering w)
      = level_lines ''INFO'' (buffer w) + 1"
    by (simp add: level_lines_append level_lines_mesg level_lines_stderr_rendering
        level_prefix_neq [symmetric])
  moreover have "level_lines ''STDOUT'' (buffer w @ mesg ''INFO'' em @ stderr_rendering w)
      = level_lines ''STDOUT'' (buffer w)"
    by (simp add: level_lines_append level_lines_mesg level_lines_stderr_rendering
        level_prefix_neq level_prefix_neq [symmetric])
  ultimately show ?thesis using run by (simp add: terminal_line_rendered)
qed

text \<open>The full-upgrade message, with a chunk waiting on the stderr queue as well.\<close>

theorem empty_output_message_line_witness:
  "\<exists>w'. update_buffer
           (new_window\<lparr>stdout_queue := [''EXIT 0''], stderr_queue := [''E: locked''],
              empty_msg := Some ''No package upgrades were performed.''\<rparr>) = Inr w'
     \<and> buffer w' = mesg ''INFO'' ''No package upgrades were performed.''
                     @ mesg ''STDERR'' ''E: locked''
     \<and> level_lines ''INFO'' (buffer w') = 1
     \<and> level_lines ''STDOUT'' (buffer w') = 0"
proof -
  let ?w = "new_window\<lparr>stdout_queue := [''EXIT 0''], stderr_queue := [''E: locked''],
              empty_msg := Some ''No package upgrades were performed.''\<rparr>"
  have h1: "stdout_queue ?w = ''EXIT 0'' # []" by simp
  have h2: "fullmatch_exit ''EXIT 0'' = Some ''0''" by (rule fullmatch_exit_values)
  have h3: "int_of_digits ''0'' = 0" by (rule int_of_digits_values)
  have h4: "stdout ?w = []" by (simp add: new_window_def)
  have h5: "empty_msg ?w = Some ''No package upgrades were performed.''" by simp
  show ?thesis
    using empty_output_message_line [OF h1 h2 h3 h4 h5]
    by (simp add: new_window_def stderr_rendering_def level_lines_Nil)
qed

text \<open>
  Claim C2. When the terminal chunk carries exit code 0, the accumulated stdout is not
  empty and an \<open>output_msg\<close> is configured, the one INFO line that the call renders
  carries the configured \<open>empty_msg\<close>: neither \<open>output_msg\<close> nor the accumulated text
  reaches the buffer.
\<close>

theorem nonempty_output_renders_empty_msg:
  assumes "stdout_queue w = text # rest"
    and "fullmatch_exit text = Some digits"
    and "int_of_digits digits = 0"
    and "stdout w \<noteq> []"
    and "output_msg w = Some om"
    and "empty_msg w = Some em"
  shows "\<exists>w'. update_buffer w = Inr w'
           \<and> buffer w' = buffer w @ mesg ''INFO'' em @ stderr_rendering w
           \<and> level_lines ''INFO'' (buffer w') = level_lines ''INFO'' (buffer w) + 1"
proof -
  from assms have run: "update_buffer w = Inr (update_buffer_stderr (unlock (append_mesg ''INFO'' em
           (w\<lparr>stdout_queue := rest\<rparr>))))"
    by (intro update_buffer_terminal_message) simp_all
  have "level_lines ''INFO'' (buffer w @ mesg ''INFO'' em @ stderr_rendering w)
      = level_lines ''INFO'' (buffer w) + 1"
    by (simp add: level_lines_append level_lines_mesg level_lines_stderr_rendering
        level_prefix_neq [symmetric])
  then show ?thesis using run by (simp add: terminal_line_rendered)
qed

text \<open>The two messages of the list command, after one line of package output.\<close>

theorem nonempty_output_renders_empty_msg_witness:
  "\<exists>w'. update_buffer
           (new_window\<lparr>stdout_queue := [''EXIT 0''], stdout := ''vim/stable 2:9.1 amd64'',
              output_msg := Some ''Found the following package upgrades:'',
              empty_msg := Some ''Comando executado!''\<rparr>) = Inr w'
     \<and> buffer w' = mesg ''INFO'' ''Comando executado!''
     \<and> level_lines ''INFO'' (buffer w') = 1"
proof -
  let ?w = "new_window\<lparr>stdout_queue := [''EXIT 0''], stdout := ''vim/stable 2:9.1 amd64'',
              output_msg := Some ''Found the following package upgrades:'',
              empty_msg := Some ''Comando executado!''\<rparr>"
  have h1: "stdout_queue ?w = ''EXIT 0'' # []" by simp
  have h2: "fullmatch_exit ''EXIT 0'' = Some ''0''" by (rule fullmatch_exit_values)
  have h3: "int_of_digits ''0'' = 0" by (rule int_of_digits_values)
  have h4: "stdout ?w \<noteq> []" by simp
  have h5: "output_msg ?w = Some ''Found the following package upgrades:''" by simp
  have h6: "empty_msg ?w = Some ''Comando executado!''" by simp
  show ?thesis
    using nonempty_output_renders_empty_msg [OF h1 h2 h3 h4 h5 h6]
    by (simp add: new_window_def stderr_rendering_def level_lines_Nil)
qed

section \<open>Suppressed stderr\<close>

text \<open>
  Claim C8. With \<open>ignore_stderr\<close> set, no number of calls of \<open>update_buffer\<close> renders
  a STDERR line, whether the calls end normally or by an exception, while every chunk
  taken from the stderr queue is still appended to the accumulated \<open>stderr\<close>.
\<close>

theorem suppressed_stderr_never_rendered:
  assumes "ignore_stderr w"
  shows "level_lines ''STDERR'' (buffer (window_of (ticks n w)))
           = level_lines ''STDERR'' (buffer w)
         \<and> (\<forall>w'. ticks n w = Inr w' \<longrightarrow>
               stderr w' = stderr w @ concat (take n (stderr_queue w))
               \<and> stderr_queue w' = drop n (stderr_queue w))"
  using assms
proof (induction n arbitrary: w)
  case 0
  then show ?case by (simp add: window_of_def)
next
  case (Suc n)
  show ?case
  proof (cases "update_buffer w")
    case (Inl raised)
    with update_buffer_ignored(1) [OF Suc.prems] show ?thesis by simp
  next
    case (Inr w1)
    with update_buffer_ignored(1,2) [OF Suc.prems]
      update_buffer_ignored(3,4) [OF Suc.prems, where w' = w1]
    have w1: "level_lines ''STDERR'' (buffer w1) = level_lines ''STDERR'' (buffer w)"
      "ignore_stderr w1" "stderr w1 = stderr w @ concat (take 1 (stderr_queue w))"
      "stderr_queue w1 = drop 1 (stderr_queue w)"
      by (simp_all add: window_of_def)
    have "concat (take 1 (stderr_queue w)) @ concat (take n (drop 1 (stderr_queue w)))
        = concat (take (Suc n) (stderr_queue w))"
      by (cases "stderr_queue w") simp_all
    with Suc.IH [OF w1(2)] w1 Inr show ?thesis by simp
  qed
qed

text \<open>Two chunks on the stderr queue, two calls.\<close>

theorem suppressed_stderr_never_rendered_witness:
  "\<exists>w'. ticks 2 (new_window\<lparr>ignore_stderr := True, stderr_queue := [''WARNING: '', ''apt'']\<rparr>)
           = Inr w'
     \<and> stderr w' = ''WARNING: apt''
     \<and> stderr_queue w' = []
     \<and> level_lines ''STDERR'' (buffer w') = 0"
proof -
  let ?w = "new_window\<lparr>ignore_stderr := True, stderr_queue := [''WARNING: '', ''apt'']\<rparr>"
  have h: "ignore_stderr ?w" by simp
  have "\<exists>w'. ticks 2 ?w = Inr w'"
    by (simp add: numeral_2_eq_2 update_buffer_def update_buffer_stdout_def
        update_buffer_stderr_def Let_def new_window_def)
  then obtain w' where t: "ticks 2 ?w = Inr w'" by blast
  from suppressed_stderr_never_rendered [OF h, of 2] t
  have "level_lines ''STDERR'' (buffer w') = level_lines ''STDERR'' (buffer ?w)"
    and "stderr w' = stderr ?w @ concat (take 2 (stderr_queue ?w))"
    and "stderr_queue w' = drop 2 (stderr_queue ?w)"
    by (simp_all add: window_of_def)
  then have "stderr w' = ''WARNING: apt'' \<and> stderr_queue w' = []
      \<and> level_lines ''STDERR'' (buffer w') = 0"
    by (simp add: new_window_def level_lines_Nil)
  with t show ?thesis by blast
qed

section \<open>The worker's chunks\<close>

text \<open>
  Claim C5, as the code has it. Take a run in which a poll answers: the keys read
  before that poll all decode and are each followed by a poll that answers \<open>None\<close>,
  and the key read last decodes and is followed by the poll that gives the exit code.
  Then the worker leaves its loops, and what it has put on the stdout queue is the
  data chunks of the keys read, in their order, followed by the terminal chunk with
  that code: the terminal chunk is the last chunk enqueued, it is enqueued exactly once,
  and only when \<open>p.poll()\<close> has reported the exit. Up to the key before, the worker has
  enqueued data chunks only and is back in \<open>select\<close>.
\<close>

theorem terminal_chunk_last_and_once:
  assumes "concat wakeups = before @ key # after"
    and "list_all (\<lambda>k. read1 k \<noteq> None \<and> poll k = None) before"
    and "read1 key \<noteq> None"
    and "poll key = Some exit_code"
  shows "fst (run_loop wakeups w) = Returned
         \<and> stdout_queue (snd (run_loop wakeups w))
             = stdout_queue w @ chunks P_stdout (before @ [key]) @ [exit_chunk exit_code]
         \<and> stderr_queue (snd (run_loop wakeups w))
             = stderr_queue w @ chunks P_stderr (before @ [key])
         \<and> fst (run_loop [before] w) = Selecting
         \<and> stdout_queue (snd (run_loop [before] w))
             = stdout_queue w @ chunks P_stdout before"
proof -
  let ?keys = "before @ key # after"
  have loop: "run_loop wakeups w = run_keys ?keys w"
    by (simp add: run_loop_concat assms(1))
  have ret: "fst (run_keys ?keys w) = Returned"
    using assms(2-4) by (rule run_keys_returned)
  have sv: "served ?keys = before @ [key]"
    using assms(2-4) by (rule served_exit)
  have out: "stdout_queue (snd (run_keys ?keys w))
      = stdout_queue w @ chunks P_stdout (before @ [key]) @ [exit_chunk exit_code]"
    using run_keys_stdout_queue [of ?keys w] ret sv assms(4) by simp
  have err: "stderr_queue (snd (run_keys ?keys w))
      = stderr_queue w @ chunks P_stderr (before @ [key])"
    using run_keys_stderr_queue [of ?keys w] sv by simp
  have loop0: "run_loop [before] w = run_keys before w"
    by (simp add: run_loop_concat)
  have sel: "fst (run_keys before w) = Selecting"
    using assms(2) by (rule run_keys_selecting)
  have out0: "stdout_queue (snd (run_keys before w))
      = stdout_queue w @ chunks P_stdout before"
    using run_keys_stdout_queue [of before w] sel served_running [OF assms(2)] by simp
  from ret out err sel out0 show ?thesis by (simp only: loop loop0 simp_thms)
qed

text \<open>One line of output, then end of file with exit code 0.\<close>

theorem terminal_chunk_last_and_once_witness:
  "fst (run_loop fetched_wakeups new_window) = Returned
   \<and> stdout_queue (snd (run_loop fetched_wakeups new_window)) = [''Fetched 3 lists'', ''EXIT 0'']
   \<and> stderr_queue (snd (run_loop fetched_wakeups new_window)) = []"
proof -
  let ?k1 = "\<lparr>fileobj = P_stdout, read1 = Some (''Fetched 3 lists'' @ [CHR 0x0A]), poll = None\<rparr>"
  let ?k2 = "\<lparr>fileobj = P_stdout, read1 = Some [], poll = Some 0\<rparr>"
  have h1: "concat fetched_wakeups = [?k1] @ ?k2 # []" by (simp add: fetched_wakeups_def)
  have h2: "list_all (\<lambda>k. read1 k \<noteq> None \<and> poll k = None) [?k1]" by simp
  have h3: "read1 ?k2 \<noteq> None" by simp
  have h4: "poll ?k2 = Some 0" by simp
  have c1: "chunks P_stdout ([?k1] @ [?k2]) = [''Fetched 3 lists'']"
    using rstrip_values(1) by (simp add: chunks_Cons chunks_Nil rstrip_Nil)
  have c2: "chunks P_stderr ([?k1] @ [?k2]) = []"
    by (simp add: chunks_Cons chunks_Nil)
  have e: "exit_chunk 0 = ''EXIT 0''" by (simp add: exit_chunk_def show_int_values)
  from terminal_chunk_last_and_once [OF h1 h2 h3 h4, of new_window]
  show ?thesis by (simp only: c1 c2 e) (simp add: new_window_def)
qed

text \<open>
  A run need not reach that poll: \<open>run\<close> does not catch what \<open>decode()\<close> raises. When
  the child's first output is not UTF-8 the thread ends with \<open>UnicodeDecodeError\<close>, and
  the run has no terminal chunk at all, although the child has exited.
\<close>

theorem undecodable_output_counterexample:
  "fst undecodable_update = Raised UnicodeDecodeError
   \<and> stdout_queue (snd undecodable_update) = []
   \<and> stderr_queue (snd undecodable_update) = []"
  by (simp add: undecodable_update_eq update_fields new_window_def)

text \<open>
  Claim C4. The worker does not go on reading after the exit status is known: it polls
  after each single read and leaves both loops at once. With \<open>late_stderr_wakeups\<close>
  the one wake-up reports both streams ready and the child has exited with code 1
  when the worker polls after reading stdout. The worker returns with \<open>EXIT 1\<close> on the
  stdout queue and the stderr queue unchanged, so the line \<open>E: locked\<close> that the child
  wrote before exiting is never enqueued.
\<close>

theorem trailing_output_lost:
  "run_loop late_stderr_wakeups w
   = (Returned, w\<lparr>stdout_queue := stdout_queue w @ [''EXIT 1'']\<rparr>)
   \<and> stderr_queue (snd (run_loop late_stderr_wakeups w)) = stderr_queue w"
  by (simp add: late_stderr_wakeups_def rstrip_Nil show_int_values)

text \<open>
  Claim C9. A line \<open>EXIT n\<close> that the child itself prints reaches the consumer as a
  terminal chunk. The worker reads it while the child is still running (the poll
  answers \<open>None\<close>, the worker goes back to \<open>select\<close>) and enqueues it trimmed; the
  next call of \<open>update_buffer\<close> takes it for an exit with code \<open>n\<close>, here a code that
  is not zero, renders the ERROR line and re-enables the controls.
\<close>

theorem in_band_exit_chunk:
  "fst (run_loop (exit_line_wakeups (Suc n)) (w\<lparr>stdout_queue := []\<rparr>)) = Selecting
   \<and> (\<exists>w'. update_buffer (snd (run_loop (exit_line_wakeups (Suc n)) (w\<lparr>stdout_queue := []\<rparr>)))
              = Inr w'
          \<and> buffer w' = buffer w
               @ mesg ''ERROR'' (''Command exited with code '' @ show_nat (Suc n))
               @ stderr_rendering w
          \<and> unlocked w')"
proof -
  let ?chunk = "''EXIT '' @ show_nat (Suc n)"
  have "\<not> is_space (last ?chunk)"
    using last_show_nat_not_space [of "Suc n"] by (simp add: show_nat_not_Nil)
  then have trim: "rstrip (?chunk @ [CHR 0x0A]) = ?chunk"
    by (intro rstrip_newline) simp_all
  have run: "run_loop (exit_line_wakeups (Suc n)) (w\<lparr>stdout_queue := []\<rparr>)
      = (Selecting, w\<lparr>stdout_queue := [?chunk]\<rparr>)"
    using trim by (simp add: exit_line_wakeups_def)
  have h1: "stdout_queue (w\<lparr>stdout_queue := [?chunk]\<rparr>) = ?chunk # []" by simp
  have h2: "fullmatch_exit ?chunk = Some (show_nat (Suc n))"
    by (simp add: fullmatch_exit_def show_nat_not_Nil show_nat_digits)
  have h3: "int_of_digits (show_nat (Suc n)) \<noteq> 0"
    by (simp add: int_of_digits_show_nat)
  have code: "show_int (int_of_digits (show_nat (Suc n))) = show_nat (Suc n)"
    by (simp only: int_of_digits_show_nat show_int_nat)
  have sr: "stderr_rendering (w\<lparr>stdout_queue := [?chunk]\<rparr>) = stderr_rendering w"
    by (rule stderr_rendering_cong) simp_all
  from update_buffer_terminal_nonzero [OF h1 h2 h3] show ?thesis
    by (simp only: run fst_conv snd_conv code) (simp add: terminal_line_rendered sr)
qed

section \<open>Runs that never unlock, and the list command\<close>

text \<open>
  Claim C1, as the code has it. \<open>run\<close> does not catch what \<open>Popen\<close> raises. For a
  command that cannot be spawned the thread ends with that exception before it
  enqueues anything: no error chunk and no terminal chunk reaches either queue, every
  later call of \<open>update_buffer\<close> finds both queues empty and changes nothing, and the
  controls that \<open>execute\<close> disabled stay disabled. (Both queues are taken to be empty
  when \<open>execute\<close> is called: no other run is in flight.)
\<close>

theorem spawn_failure_locks_for_good:
  assumes "os_popen args env = Popen_raises"
    and "execute args ign om em env clr w = (w1, started)"
    and "stdout_queue w = []"
    and "stderr_queue w = []"
  shows "thread_run os_popen (w1, started) = (Raised OSError, w1)
         \<and> stdout_queue w1 = [] \<and> stderr_queue w1 = []
         \<and> (\<forall>n. ticks n w1 = Inr w1)
         \<and> locked w1"
proof -
  from assms(2) have w1: "w1 = fst (execute args ign om em env clr w)"
    and st: "started = (args, env)"
    using execute_fields(1) [of args ign om em env clr w] by simp_all
  from assms(1) have "thread_run os_popen (w1, started) = (Raised OSError, w1)"
    by (simp add: thread_run_def run_def st)
  moreover from assms(3,4) have q: "stdout_queue w1 = []" "stderr_queue w1 = []"
    by (simp_all add: w1 execute_fields)
  moreover have "locked w1" by (simp add: w1 execute_fields)
  ultimately show ?thesis using ticks_idle [OF q] by simp
qed

text \<open>The update command on a system where \<open>Popen\<close> raises.\<close>

theorem spawn_failure_locks_for_good_witness:
  "thread_run popen_fails (update True new_window)
     = (Raised OSError, fst (update True new_window))
   \<and> (\<forall>n. ticks n (fst (update True new_window)) = Inr (fst (update True new_window)))
   \<and> locked (fst (update True new_window))"
proof -
  let ?args = "[''/usr/bin/apt'', ''-y'', ''update'']"
  let ?env = "[(''DEBIAN_FRONTEND'', ''noninteractive'')]"
  have h1: "popen_fails ?args ?env = Popen_raises" by (simp add: popen_fails_def)
  have h2: "execute ?args False None None ?env True new_window
      = (fst (update True new_window), snd (update True new_window))"
    by (simp add: update_def)
  have h3: "stdout_queue new_window = []" by (simp add: new_window_def)
  have h4: "stderr_queue new_window = []" by (simp add: new_window_def)
  show ?thesis
    using spawn_failure_locks_for_good [where os_popen = popen_fails, OF h1 h2 h3 h4] by simp
qed

text \<open>
  The same run against the claim as the specification words it: the worker is gone
  with \<open>OSError\<close>, the queues are empty, and after ten calls of the timer callback the
  window is as it was, controls disabled.
\<close>

theorem spawn_failure_counterexample:
  "fst spawn_failure = Raised OSError
   \<and> stdout_queue (snd spawn_failure) = []
   \<and> stderr_queue (snd spawn_failure) = []
   \<and> ticks 10 (snd spawn_failure) = Inr (snd spawn_failure)
   \<and> locked (snd spawn_failure)"
proof -
  have r: "spawn_failure = (Raised OSError, fst (update True new_window))"
    by (simp add: spawn_failure_def thread_run_def run_def popen_fails_def update_def
        split: prod.splits)
  have q: "stdout_queue (fst (update True new_window)) = []"
    "stderr_queue (fst (update True new_window)) = []"
    by (simp_all add: update_def execute_fields new_window_def)
  have "locked (fst (update True new_window))"
    by (simp add: update_def execute_fields)
  with q ticks_idle [OF q, of 10] show ?thesis by (simp add: r)
qed

text \<open>
  Claim C3, as the code has it. The empty-output message of the list command is
  \<open>Comando executado!\<close>. When the child prints nothing on stdout and exits with code 0,
  the terminal chunk is the only chunk on the stdout queue, and the call of
  \<open>update_buffer\<close> that takes it renders exactly one INFO line, carrying that message,
  after which the controls are enabled. Stderr is suppressed for this command, so the
  call renders nothing else.
\<close>

theorem list_upgradable_empty_output:
  assumes "run_loop wakeups (fst (list_upgradable clr w)) = (Returned, w1)"
    and "stdout_queue w = []"
    and "list_all (\<lambda>k. read1 k = Some []) (filter (\<lambda>k. fileobj k = P_stdout) (concat wakeups))"
    and "list_all (\<lambda>k. poll k = None \<or> poll k = Some 0) (concat wakeups)"
  shows "empty_msg w1 = Some ''Comando executado!''
         \<and> stdout_queue w1 = [''EXIT 0'']
         \<and> (\<exists>w2. update_buffer w1 = Inr w2
                \<and> buffer w2 = buffer w1 @ mesg ''INFO'' ''Comando executado!''
                \<and> unlocked w2)"
proof -
  let ?w0 = "fst (list_upgradable clr w)"
  from returned_exit_chunk [OF assms(1)] obtain key exit_code
    where key: "key \<in> set (concat wakeups)" "poll key = Some exit_code"
      and q: "stdout_queue w1
        = stdout_queue ?w0 @ chunks P_stdout (served (concat wakeups)) @ [exit_chunk exit_code]"
    by blast
  from assms(4) key(1) have "poll key = None \<or> poll key = Some 0"
    unfolding list_all_iff by blast
  with key(2) have "exit_code = 0" by simp
  with q assms(2) chunks_silent [OF assms(3)]
  have h1: "stdout_queue w1 = ''EXIT 0'' # []"
    by (simp add: list_upgradable_fields exit_chunk_def show_int_values)
  from assms(1) have w1: "w1 = snd (run_loop wakeups ?w0)" by simp
  have h4: "empty_msg w1 = Some ''Comando executado!''"
    by (simp add: w1 run_loop_fields list_upgradable_fields)
  have h5: "stdout w1 = [] \<or> output_msg w1 \<noteq> None"
    by (simp add: w1 run_loop_fields list_upgradable_fields)
  have "ignore_stderr w1" by (simp add: w1 run_loop_fields list_upgradable_fields)
  then have "stderr_rendering w1 = []" by (rule stderr_rendering_ignored)
  with update_buffer_terminal_message [OF h1 fullmatch_exit_values(1) int_of_digits_values(1) h4 h5]
  have "\<exists>w2. update_buffer w1 = Inr w2
          \<and> buffer w2 = buffer w1 @ mesg ''INFO'' ''Comando executado!''
          \<and> unlocked w2"
    by (simp add: terminal_line_rendered)
  with h1 h4 show ?thesis by simp
qed

text \<open>The list command whose child only warns on stderr.\<close>

theorem list_upgradable_empty_output_witness:
  "\<exists>w2. update_buffer (snd silent_list) = Inr w2
     \<and> buffer w2 = buffer (snd silent_list) @ mesg ''INFO'' ''Comando executado!''
     \<and> unlocked w2"
proof -
  have h1: "run_loop silent_wakeups (fst (list_upgradable True new_window))
      = (Returned, snd silent_list)"
    by (simp add: silent_list_def thread_run_eq run_def silent_child_def silent_wakeups_run)
  have h2: "stdout_queue new_window = []" by (simp add: new_window_def)
  have h3: "list_all (\<lambda>k. read1 k = Some [])
      (filter (\<lambda>k. fileobj k = P_stdout) (concat silent_wakeups))"
    by (simp add: silent_wakeups_def)
  have h4: "list_all (\<lambda>k. poll k = None \<or> poll k = Some 0) (concat silent_wakeups)"
    by (simp add: silent_wakeups_def)
  show ?thesis
    using list_upgradable_empty_output [OF h1 h2 h3 h4] by simp
qed

text \<open>
  That run against the claim as the specification words it: the configured message is
  not \<open>No upgrades found\<close>, and the buffer after the terminal chunk holds the line that
  \<open>execute\<close> printed and the line \<open>Comando executado!\<close>.
\<close>

theorem list_sentinel_counterexample:
  "fst silent_list = Returned
   \<and> stdout_queue (snd silent_list) = [''EXIT 0'']
   \<and> empty_msg (snd silent_list) = Some ''Comando executado!''
   \<and> empty_msg (snd silent_list) \<noteq> Some ''No upgrades found''
   \<and> buffer (window_of (ticks 1 (snd silent_list)))
       = mesg ''INFO'' (''Running command '' @ [CHR 0x22]
                        @ ''/usr/bin/apt -qq list --upgradable'' @ [CHR 0x22] @ '' ...'')
         @ mesg ''INFO'' ''Comando executado!''"
proof -
  let ?w0 = "fst (list_upgradable True new_window)"
  let ?w1 = "?w0\<lparr>stderr_queue := [''WARNING: apt''], stdout_queue := [''EXIT 0'']\<rparr>"
  have h1: "stdout_queue ?w1 = ''EXIT 0'' # []" by simp
  have h4: "empty_msg ?w1 = Some ''Comando executado!''" by (simp add: list_upgradable_fields)
  have h5: "stdout ?w1 = [] \<or> output_msg ?w1 \<noteq> None" by (simp add: list_upgradable_fields)
  have ign: "ignore_stderr ?w1" by (simp add: list_upgradable_fields)
  have buf: "buffer ?w1 = mesg ''INFO'' (''Running command '' @ [CHR 0x22]
                        @ ''/usr/bin/apt -qq list --upgradable'' @ [CHR 0x22] @ '' ...'')"
    by (simp add: list_upgradable_def execute_fields)
  from update_buffer_terminal_message [OF h1 fullmatch_exit_values(1) int_of_digits_values(1) h4 h5]
  have "buffer (window_of (ticks 1 ?w1))
      = buffer ?w1 @ mesg ''INFO'' ''Comando executado!'' @ stderr_rendering ?w1"
    by (simp add: window_of_def terminal_line_rendered stderr_rendering_stdout_queue)
  with buf stderr_rendering_ignored [OF ign] h4 show ?thesis
    by (simp add: silent_list_eq)
qed

text \<open>
  Claim C10, as the code has it. When the child is ended by a signal, every poll that
  answers gives a negative code. The worker then ends with the chunk \<open>EXIT -N\<close>, which
  \<open>EXIT (\d+)\<close> does not match: the call of \<open>update_buffer\<close> that takes it renders it
  as a STDOUT line and appends it to the accumulated stdout. Provided no chunk queued
  before it matches the pattern either, no call ever renders an ERROR line or
  re-enables the controls.
\<close>

theorem signal_exit_chunk_not_terminal:
  assumes "run_loop wakeups w = (Returned, w1)"
    and "list_all (\<lambda>k. case poll k of None \<Rightarrow> True | Some exit_code \<Rightarrow> exit_code < 0)
           (concat wakeups)"
    and "list_all (\<lambda>t. fullmatch_exit t = None) (butlast (stdout_queue w1))"
    and "locked w"
  shows "\<exists>data exit_code. exit_code < 0
           \<and> stdout_queue w1 = data @ [exit_chunk exit_code]
           \<and> fullmatch_exit (exit_chunk exit_code) = None
           \<and> (\<exists>w2 w3. ticks (length data) w1 = Inr w2 \<and> update_buffer w2 = Inr w3
                 \<and> buffer w3 = buffer w2 @ mesg ''STDOUT'' (exit_chunk exit_code)
                                 @ stderr_rendering w2
                 \<and> stdout w3 = stdout w2 @ exit_chunk exit_code)
           \<and> (\<forall>n. \<exists>w'. ticks n w1 = Inr w' \<and> locked w'
                 \<and> level_lines ''ERROR'' (buffer w') = level_lines ''ERROR'' (buffer w1))"
proof -
  from returned_exit_chunk [OF assms(1)] obtain key exit_code
    where key: "key \<in> set (concat wakeups)" "poll key = Some exit_code"
      and q: "stdout_queue w1
        = stdout_queue w @ chunks P_stdout (served (concat wakeups)) @ [exit_chunk exit_code]"
    by blast
  define data where "data = stdout_queue w @ chunks P_stdout (served (concat wakeups))"
  from q have queue: "stdout_queue w1 = data @ [exit_chunk exit_code]"
    by (simp add: data_def)
  from assms(2) key(1)
  have "case poll key of None \<Rightarrow> True | Some exit_code \<Rightarrow> exit_code < 0"
    unfolding list_all_iff by blast
  with key(2) have neg: "exit_code < 0" by simp
  then have nomatch: "fullmatch_exit (exit_chunk exit_code) = None"
    by (simp add: fullmatch_exit_chunk)
  from assms(3) queue nomatch
  have all: "list_all (\<lambda>t. fullmatch_exit t = None) (stdout_queue w1)" by simp
  from assms(1) have "w1 = snd (run_loop wakeups w)" by simp
  with assms(4) have lk: "locked w1" by (simp add: run_loop_fields)
  have forever: "\<forall>n. \<exists>w'. ticks n w1 = Inr w' \<and> locked w'
      \<and> level_lines ''ERROR'' (buffer w') = level_lines ''ERROR'' (buffer w1)"
    using ticks_no_terminal [OF all] lk by metis
  from ticks_no_terminal [OF all, of "length data"] obtain w2
    where w2: "ticks (length data) w1 = Inr w2"
      "stdout_queue w2 = drop (length data) (stdout_queue w1)"
    by blast
  from w2(2) queue have head: "stdout_queue w2 = exit_chunk exit_code # []" by simp
  from update_buffer_data [OF head nomatch]
  have "\<exists>w3. update_buffer w2 = Inr w3
      \<and> buffer w3 = buffer w2 @ mesg ''STDOUT'' (exit_chunk exit_code) @ stderr_rendering w2
      \<and> stdout w3 = stdout w2 @ exit_chunk exit_code"
    by (simp add: data_line_rendered)
  with w2(1) have "\<exists>w2 w3. ticks (length data) w1 = Inr w2 \<and> update_buffer w2 = Inr w3
      \<and> buffer w3 = buffer w2 @ mesg ''STDOUT'' (exit_chunk exit_code) @ stderr_rendering w2
      \<and> stdout w3 = stdout w2 @ exit_chunk exit_code"
    by blast
  with neg queue nomatch forever show ?thesis by blast
qed

text \<open>The update command whose child is ended by signal 15 after one ordinary line.\<close>

theorem signal_exit_chunk_not_terminal_witness:
  "stdout_queue (snd aborted_update) = [''Reading package lists...'', ''EXIT -15'']
   \<and> (\<forall>n. \<exists>w'. ticks n (snd aborted_update) = Inr w' \<and> locked w'
          \<and> level_lines ''ERROR'' (buffer w') = level_lines ''ERROR'' (buffer (snd aborted_update)))"
proof -
  have h1: "run_loop aborted_wakeups (fst (update True new_window))
      = (Returned, snd aborted_update)"
    by (simp add: aborted_update_def thread_run_eq run_def aborted_child_def update_fields
        aborted_wakeups_run)
  have h2: "list_all (\<lambda>k. case poll k of None \<Rightarrow> True | Some exit_code \<Rightarrow> exit_code < 0)
      (concat aborted_wakeups)"
    by (simp add: aborted_wakeups_def)
  have h3: "list_all (\<lambda>t. fullmatch_exit t = None) (butlast (stdout_queue (snd aborted_update)))"
    by (simp add: aborted_update_eq fullmatch_exit_def)
  have h4: "locked (fst (update True new_window))" by (rule update_fields)
  from signal_exit_chunk_not_terminal [OF h1 h2 h3 h4]
  have "\<forall>n. \<exists>w'. ticks n (snd aborted_update) = Inr w' \<and> locked w'
      \<and> level_lines ''ERROR'' (buffer w') = level_lines ''ERROR'' (buffer (snd aborted_update))"
    by blast
  then show ?thesis by (simp add: aborted_update_eq)
qed

text \<open>
  Without the proviso the controls can come back: here the child prints \<open>EXIT 0\<close>
  before signal 9 ends it, and the first call of the timer callback enables them.
\<close>

theorem signal_exit_counterexample:
  "fst killed_update = Returned
   \<and> stdout_queue (snd killed_update) = [''EXIT 0'', ''EXIT -9'']
   \<and> locked (snd killed_update)
   \<and> unlocked (window_of (ticks 1 (snd killed_update)))"
proof -
  let ?w1 = "(fst (update True new_window))\<lparr>stdout_queue := [''EXIT 0'', ''EXIT -9'']\<rparr>"
  have h1: "stdout_queue ?w1 = ''EXIT 0'' # [''EXIT -9'']" by simp
  have "update_buffer_stdout ?w1 = Inr (unlock (?w1\<lparr>stdout_queue := [''EXIT -9'']\<rparr>))"
    by (simp add: update_buffer_stdout_def Let_def fullmatch_exit_values int_of_digits_values
        update_fields)
  then have "update_buffer ?w1
      = Inr (update_buffer_stderr (unlock (?w1\<lparr>stdout_queue := [''EXIT -9'']\<rparr>)))"
    by (rule update_buffer_Inr)
  then have "unlocked (window_of (ticks 1 ?w1))"
    by (simp add: unlocked_window_of_Inr unlocked_update_buffer_stderr unlocked_unlock)
  moreover have "locked ?w1" using update_fields(4) [of True new_window]
    by (simp add: locked_def)
  ultimately show ?thesis by (simp add: killed_update_eq)
qed

end
